theory Spec2Isabelle
  imports Main
begin

section \<open>Mond Clock: the clock widget of \<^verbatim>\<open>wallpapers/mond_clock/script.js\<close>\<close>

text \<open>
  The script formats the host's local time into three strings, writes them into the
  elements \<^verbatim>\<open>day\<close>, \<^verbatim>\<open>date\<close> and \<^verbatim>\<open>time\<close>, and re-runs on a timer
  aligned to the minute. Every number the script handles is an integer far below
  \<open>2^53\<close>, where JavaScript's doubles are exact, so numbers are modelled as \<open>int\<close>.
\<close>

subsection \<open>JavaScript values and their conversion to strings\<close>

text \<open>
  The values the script passes around: \<^verbatim>\<open>undefined\<close> (an array read out of range),
  numbers and strings.
\<close>

datatype jsval = Undefined | Num int | Str string

text \<open>Decimal digits of a natural number, most significant first, no leading zero.\<close>

fun digits :: "nat \<Rightarrow> string" where
  "digits n = (if n < 10 then [''0123456789'' ! n]
               else digits (n div 10) @ [''0123456789'' ! (n mod 10)])"

declare digits.simps [simp del]

text \<open>
  \<^verbatim>\<open>Number::toString\<close> on an integer of magnitude below \<open>10^21\<close>: the decimal digits,
  with a minus sign for a negative number.
\<close>

definition NumberToString :: "int \<Rightarrow> string" where
  "NumberToString i = (if i < 0 then ''-'' @ digits (nat (- i)) else digits (nat i))"

text \<open>\<^verbatim>\<open>ToString\<close>, as a template literal and \<^verbatim>\<open>'0' + minutes\<close> apply it.\<close>

fun ToString :: "jsval \<Rightarrow> string" where
  "ToString Undefined = ''undefined''"
| "ToString (Num i) = NumberToString i"
| "ToString (Str s) = s"

text \<open>\<^verbatim>\<open>ToBoolean\<close>: zero and the empty string are falsy.\<close>

fun ToBoolean :: "jsval \<Rightarrow> bool" where
  "ToBoolean Undefined = False"
| "ToBoolean (Num i) = (i \<noteq> 0)"
| "ToBoolean (Str s) = (s \<noteq> [])"

text \<open>
  The remainder operator \<^verbatim>\<open>%\<close>: the result takes the sign of the dividend. (A zero
  divisor gives \<^verbatim>\<open>NaN\<close>; the script only divides by 12.)
\<close>

definition js_rem :: "int \<Rightarrow> int \<Rightarrow> int" where
  "js_rem a b = sgn a * (\<bar>a\<bar> mod \<bar>b\<bar>)"

text \<open>
  An array read \<^verbatim>\<open>xs[i]\<close> with a number as index: the element when the index is in
  range, \<^verbatim>\<open>undefined\<close> otherwise.
\<close>

definition array_get :: "string list \<Rightarrow> int \<Rightarrow> jsval" where
  "array_get xs i = (if 0 \<le> i \<and> i < int (length xs) then Str (xs ! nat i) else Undefined)"

subsection \<open>Time values and the \<^verbatim>\<open>Date\<close> getters (ECMA-262, 21.4.1)\<close>

text \<open>
  A \<^verbatim>\<open>Date\<close> holds a time value: milliseconds since 1970-01-01T00:00:00Z. The getters
  the script calls are defined by the language standard through the functions below,
  which keep the standard's names. Division is \<open>floor\<close> division, as in the standard;
  \<open>div\<close> and \<open>mod\<close> on \<open>int\<close> are exactly that. \<^verbatim>\<open>new Date()\<close> always holds a
  valid time value (never \<^verbatim>\<open>NaN\<close>), of magnitude at most \<open>8.64 * 10^15\<close>; the
  functions are defined, and the results below hold, for every integer.
\<close>

definition msPerSecond :: int where "msPerSecond = 1000"
definition msPerMinute :: int where "msPerMinute = 60000"
definition msPerHour :: int where "msPerHour = 3600000"
definition msPerDay :: int where "msPerDay = 86400000"

definition Day :: "int \<Rightarrow> int" where
  "Day t = t div msPerDay"

definition DaysInYear :: "int \<Rightarrow> int" where
  "DaysInYear y = (if y mod 400 = 0 then 366
                   else if y mod 100 = 0 then 365
                   else if y mod 4 = 0 then 366
                   else 365)"

definition DayFromYear :: "int \<Rightarrow> int" where
  "DayFromYear y = 365 * (y - 1970) + (y - 1969) div 4 - (y - 1901) div 100
                   + (y - 1601) div 400"

definition TimeFromYear :: "int \<Rightarrow> int" where
  "TimeFromYear y = msPerDay * DayFromYear y"

text \<open>
  The standard defines \<^verbatim>\<open>YearFromTime(t)\<close> as the largest \<open>y\<close> with
  \<open>TimeFromYear y \<le> t\<close>. This is computed from an estimate by the mean length of a
  Gregorian year (146097 days in 400 years), which is off by at most one year; that the
  result is the year of the standard is lemma \<open>YearFromTime_greatest\<close> below.
\<close>

definition YearFromTime :: "int \<Rightarrow> int" where
  "YearFromTime t =
     (let d = Day t; y = 1970 + (400 * d) div 146097
      in if DayFromYear (y + 1) \<le> d then y + 1
         else if DayFromYear y \<le> d then y
         else y - 1)"

definition DayWithinYear :: "int \<Rightarrow> int" where
  "DayWithinYear t = Day t - DayFromYear (YearFromTime t)"

definition InLeapYear :: "int \<Rightarrow> int" where
  "InLeapYear t = (if DaysInYear (YearFromTime t) = 366 then 1 else 0)"

definition MonthFromTime :: "int \<Rightarrow> int" where
  "MonthFromTime t =
     (let inLeapYear = InLeapYear t; dayWithinYear = DayWithinYear t
      in if dayWithinYear < 31 then 0
         else if dayWithinYear < 59 + inLeapYear then 1
         else if dayWithinYear < 90 + inLeapYear then 2
         else if dayWithinYear < 120 + inLeapYear then 3
         else if dayWithinYear < 151 + inLeapYear then 4
         else if dayWithinYear < 181 + inLeapYear then 5
         else if dayWithinYear < 212 + inLeapYear then 6
         else if dayWithinYear < 243 + inLeapYear then 7
         else if dayWithinYear < 273 + inLeapYear then 8
         else if dayWithinYear < 304 + inLeapYear then 9
         else if dayWithinYear < 334 + inLeapYear then 10
         else 11)"

definition DateFromTime :: "int \<Rightarrow> int" where
  "DateFromTime t =
     (let inLeapYear = InLeapYear t; dayWithinYear = DayWithinYear t;
          month = MonthFromTime t
      in if month = 0 then dayWithinYear + 1
         else if month = 1 then dayWithinYear - 30
         else if month = 2 then dayWithinYear - 58 - inLeapYear
         else if month = 3 then dayWithinYear - 89 - inLeapYear
         else if month = 4 then dayWithinYear - 119 - inLeapYear
         else if month = 5 then dayWithinYear - 150 - inLeapYear
         else if month = 6 then dayWithinYear - 180 - inLeapYear
         else if month = 7 then dayWithinYear - 211 - inLeapYear
         else if month = 8 then dayWithinYear - 242 - inLeapYear
         else if month = 9 then dayWithinYear - 272 - inLeapYear
         else if month = 10 then dayWithinYear - 303 - inLeapYear
         else dayWithinYear - 333 - inLeapYear)"

definition WeekDay :: "int \<Rightarrow> int" where
  "WeekDay t = (Day t + 4) mod 7"

definition HourFromTime :: "int \<Rightarrow> int" where
  "HourFromTime t = (t div msPerHour) mod 24"

definition MinFromTime :: "int \<Rightarrow> int" where
  "MinFromTime t = (t div msPerMinute) mod 60"

definition SecFromTime :: "int \<Rightarrow> int" where
  "SecFromTime t = (t div msPerSecond) mod 60"

definition msFromTime :: "int \<Rightarrow> int" where
  "msFromTime t = t mod msPerSecond"

text \<open>
  Local time: the host's time zone decides the offset, in milliseconds, that holds at a
  given time value. The script sets no time zone, so the offset is a parameter \<open>tz\<close>
  of every getter.
\<close>

type_synonym zone = "int \<Rightarrow> int"

definition LocalTime :: "zone \<Rightarrow> int \<Rightarrow> int" where
  "LocalTime tz t = t + tz t"

definition getDay :: "zone \<Rightarrow> int \<Rightarrow> int" where
  "getDay tz t = WeekDay (LocalTime tz t)"

definition getMonth :: "zone \<Rightarrow> int \<Rightarrow> int" where
  "getMonth tz t = MonthFromTime (LocalTime tz t)"

definition getDate :: "zone \<Rightarrow> int \<Rightarrow> int" where
  "getDate tz t = DateFromTime (LocalTime tz t)"

definition getFullYear :: "zone \<Rightarrow> int \<Rightarrow> int" where
  "getFullYear tz t = YearFromTime (LocalTime tz t)"

definition getHours :: "zone \<Rightarrow> int \<Rightarrow> int" where
  "getHours tz t = HourFromTime (LocalTime tz t)"

definition getMinutes :: "zone \<Rightarrow> int \<Rightarrow> int" where
  "getMinutes tz t = MinFromTime (LocalTime tz t)"

definition getSeconds :: "zone \<Rightarrow> int \<Rightarrow> int" where
  "getSeconds tz t = SecFromTime (LocalTime tz t)"

definition getMilliseconds :: "zone \<Rightarrow> int \<Rightarrow> int" where
  "getMilliseconds tz t = msFromTime (LocalTime tz t)"

subsection \<open>The three strings of \<^verbatim>\<open>updateClock\<close>\<close>

definition days :: "string list" where
  "days = [''Sunday'', ''Monday'', ''Tuesday'', ''Wednesday'', ''Thursday'', ''Friday'',
           ''Saturday'']"

definition months :: "string list" where
  "months = [''January'', ''February'', ''March'', ''April'', ''May'', ''June'', ''July'',
             ''August'', ''September'', ''October'', ''November'', ''December'']"

text \<open>Line 6: the value written to \<^verbatim>\<open>day\<close>, \<^verbatim>\<open>days[now.getDay()]\<close>.\<close>

definition dayVal :: "zone \<Rightarrow> int \<Rightarrow> jsval" where
  "dayVal tz now = array_get days (getDay tz now)"

text \<open>Line 10: the template literal \<^verbatim>\<open>`${months[now.getMonth()]} ${now.getDate()}, ${now.getFullYear()}`\<close>.\<close>

definition dateStr :: "zone \<Rightarrow> int \<Rightarrow> string" where
  "dateStr tz now =
     ToString (array_get months (getMonth tz now)) @ '' '' @ ToString (Num (getDate tz now))
     @ '', '' @ ToString (Num (getFullYear tz now))"

text \<open>Line 16: \<^verbatim>\<open>hours >= 12 ? 'PM' : 'AM'\<close>, on the hour as \<^verbatim>\<open>getHours\<close> returned it.\<close>

definition ampm :: "int \<Rightarrow> string" where
  "ampm hours = (if hours \<ge> 12 then ''PM'' else ''AM'')"

text \<open>Line 19: \<^verbatim>\<open>minutes < 10 ? '0' + minutes : minutes\<close>: a string or the number itself.\<close>

definition minutesStr :: "int \<Rightarrow> jsval" where
  "minutesStr minutes =
     (if minutes < 10 then Str (''0'' @ ToString (Num minutes)) else Num minutes)"

text \<open>
  Lines 14 to 20. The source assigns \<^verbatim>\<open>hours\<close> three times; the three values are
  \<open>hours\<close>, \<open>hours'\<close> and \<open>hours''\<close>.
\<close>

definition timeStr :: "zone \<Rightarrow> int \<Rightarrow> string" where
  "timeStr tz now =
     (let hours = getHours tz now;
          minutes = getMinutes tz now;
          ampm = ampm hours;
          hours' = js_rem hours 12;
          hours'' = (if ToBoolean (Num hours') then hours' else 12);
          minutesStr = minutesStr minutes
      in ''- '' @ ToString (Num hours'') @ '':'' @ ToString minutesStr @ '' '' @ ampm
         @ '' -'')"

text \<open>Line 29, on the \<^verbatim>\<open>Date\<close> of line 28.\<close>

definition msUntilNextMinute :: "zone \<Rightarrow> int \<Rightarrow> int" where
  "msUntilNextMinute tz now = (60 - getSeconds tz now) * 1000 - getMilliseconds tz now"

subsection \<open>The host: system clock, time zone and document\<close>

text \<open>
  \<^verbatim>\<open>new Date()\<close> reads the system clock, and two reads need not agree. The clock is
  the sequence of readings it will give (time values in milliseconds), with a count of
  the reads made so far. The document is the text content of each element, by id; an
  id without an entry has no element.
\<close>

record world =
  clock :: "nat \<Rightarrow> int"
  reads :: nat
  tza :: zone
  document :: "string \<rightharpoonup> string"

definition new_Date :: "world \<Rightarrow> int \<times> world" where
  "new_Date w = (clock w (reads w), w\<lparr>reads := Suc (reads w)\<rparr>)"

datatype error = TypeError

text \<open>
  What the \<^verbatim>\<open>textContent\<close> setter stores: \<^verbatim>\<open>undefined\<close> converts to \<^verbatim>\<open>null\<close>, which
  empties the element; any other value is converted to a string.
\<close>

definition textContent_of :: "jsval \<Rightarrow> string" where
  "textContent_of v = (case v of Undefined \<Rightarrow> [] | _ \<Rightarrow> ToString v)"

text \<open>
  \<^verbatim>\<open>document.getElementById(id).textContent = v\<close>: \<^verbatim>\<open>getElementById\<close> returns
  \<^verbatim>\<open>null\<close> when there is no such element, and the assignment then throws a
  \<^verbatim>\<open>TypeError\<close>. The world as it is at the throw is returned with the error.
\<close>

definition set_textContent :: "string \<Rightarrow> jsval \<Rightarrow> world \<Rightarrow> world \<times> error option" where
  "set_textContent ident v w =
     (case document w ident of
        None \<Rightarrow> (w, Some TypeError)
      | Some _ \<Rightarrow> (w\<lparr>document := (document w)(ident \<mapsto> textContent_of v)\<rparr>, None))"

text \<open>Lines 1 to 22. A throw skips the statements after it.\<close>

definition updateClock :: "world \<Rightarrow> world \<times> error option" where
  "updateClock w0 =
     (let (now, w1) = new_Date w0; tz = tza w1
      in case set_textContent ''day'' (dayVal tz now) w1 of
           (w2, Some e) \<Rightarrow> (w2, Some e)
         | (w2, None) \<Rightarrow>
             (case set_textContent ''date'' (Str (dateStr tz now)) w2 of
                (w3, Some e) \<Rightarrow> (w3, Some e)
              | (w3, None) \<Rightarrow> set_textContent ''time'' (Str (timeStr tz now)) w3))"

subsection \<open>Timers and the start of the script\<close>

text \<open>
  The two functions the script hands to a timer: the arrow function of line 31 and
  \<^verbatim>\<open>updateClock\<close> itself.
\<close>

datatype callback = Arrow | UpdateClock

text \<open>
  A timer fires when the time elapsed since the script started reaches \<open>due\<close>; one made
  by \<^verbatim>\<open>setInterval\<close> repeats with its period. Timers fire exactly when due: the model
  keeps their order and their nominal delays, not the jitter of a real host.
\<close>

record timer =
  handler :: callback
  due :: int
  period :: "int option"

text \<open>
  The running page: the host, the time elapsed on the timers' clock, the pending timers,
  the elapsed time at each call of \<^verbatim>\<open>updateClock\<close> so far, and the errors that
  reached the top level.
\<close>

record runtime =
  host :: world
  elapsed :: int
  timers :: "timer list"
  calls :: "int list"
  uncaught :: "error list"

definition call_updateClock :: "runtime \<Rightarrow> runtime \<times> error option" where
  "call_updateClock r =
     (let (w, e) = updateClock (host r)
      in (r\<lparr>host := w, calls := calls r @ [elapsed r]\<rparr>, e))"

text \<open>A negative delay counts as zero.\<close>

definition setTimeout :: "callback \<Rightarrow> int \<Rightarrow> runtime \<Rightarrow> runtime" where
  "setTimeout f ms r =
     r\<lparr>timers := timers r @ [\<lparr>handler = f, due = elapsed r + max 0 ms, period = None\<rparr>]\<rparr>"

definition setInterval :: "callback \<Rightarrow> int \<Rightarrow> runtime \<Rightarrow> runtime" where
  "setInterval f ms r =
     r\<lparr>timers := timers r
        @ [\<lparr>handler = f, due = elapsed r + max 0 ms, period = Some (max 0 ms)\<rparr>]\<rparr>"

text \<open>Lines 25 to 34, the top level of the script.\<close>

definition script :: "runtime \<Rightarrow> runtime \<times> error option" where
  "script r0 =
     (case call_updateClock r0 of
        (r1, Some e) \<Rightarrow> (r1, Some e)
      | (r1, None) \<Rightarrow>
          (let (now, w) = new_Date (host r1);
               r2 = r1\<lparr>host := w\<rparr>;
               msUntilNextMinute = msUntilNextMinute (tza w) now
           in (setTimeout Arrow msUntilNextMinute r2, None)))"

text \<open>The body of a callback, run when its timer fires.\<close>

fun run :: "callback \<Rightarrow> runtime \<Rightarrow> runtime \<times> error option" where
  "run Arrow r0 =
     (case call_updateClock r0 of
        (r1, Some e) \<Rightarrow> (r1, Some e)
      | (r1, None) \<Rightarrow> (setInterval UpdateClock 60000 r1, None))"
| "run UpdateClock r0 = call_updateClock r0"

text \<open>The pending timer that is due first; among equals, the one set first.\<close>

fun earliest :: "timer \<Rightarrow> timer list \<Rightarrow> timer" where
  "earliest t [] = t"
| "earliest t (u # us) = earliest (if due u < due t then u else t) us"

text \<open>
  One turn of the event loop: the earliest timer fires and its callback runs; an error
  the callback throws is reported without stopping the loop. A one-shot timer is gone
  once it has fired; a repeating one is then set again, one period after it was due.
  With no timer pending nothing will ever run again: \<open>None\<close>.
\<close>

definition step :: "runtime \<Rightarrow> runtime option" where
  "step r =
     (case timers r of
        [] \<Rightarrow> None
      | t # ts \<Rightarrow>
          (let tm = earliest t ts;
               r1 = r\<lparr>elapsed := max (elapsed r) (due tm), timers := remove1 tm (timers r)\<rparr>;
               (r2, e) = run (handler tm) r1;
               r3 = (case e of None \<Rightarrow> r2 | Some x \<Rightarrow> r2\<lparr>uncaught := uncaught r2 @ [x]\<rparr>);
               again = (case period tm of None \<Rightarrow> []
                        | Some p \<Rightarrow> [tm\<lparr>due := due tm + p\<rparr>])
           in Some (r3\<lparr>timers := timers r3 @ again\<rparr>)))"

fun steps :: "nat \<Rightarrow> runtime \<Rightarrow> runtime option" where
  "steps 0 r = Some r"
| "steps (Suc n) r = (case step r of None \<Rightarrow> None | Some r' \<Rightarrow> steps n r')"

text \<open>Loading the page: the script runs once, at elapsed time 0, with no timer set.\<close>

definition boot :: "world \<Rightarrow> runtime \<times> error option" where
  "boot w = script \<lparr>host = w, elapsed = 0, timers = [], calls = [], uncaught = []\<rparr>"

text \<open>The elements the script writes to are all in the document.\<close>

definition targets_present :: "world \<Rightarrow> bool" where
  "targets_present w =
     (document w ''day'' \<noteq> None \<and> document w ''date'' \<noteq> None \<and> document w ''time'' \<noteq> None)"

text \<open>
  The states of the running chain after the one-shot timer has fired: \<open>n\<close> ticks of the
  interval later, \<open>n + 2\<close> calls have been made, at 0, at the delay \<open>d\<close> and then every
  60000 ms, and the interval timer is pending for the next tick.
\<close>

definition ticking :: "int \<Rightarrow> nat \<Rightarrow> runtime \<Rightarrow> bool" where
  "ticking d n r =
     (targets_present (host r) \<and> elapsed r = d + 60000 * int n
      \<and> timers r = [\<lparr>handler = UpdateClock, due = d + 60000 * (int n + 1),
                       period = Some 60000\<rparr>]
      \<and> calls r = 0 # map (\<lambda>k. d + 60000 * int k) [0..<Suc n]
      \<and> uncaught r = [])"

text \<open>
  A host for the examples: a document with the three elements, Greenwich time, and a
  clock that reads 2024-03-07T00:05:00.000 first and 59.5 seconds more at each later
  read.
\<close>

definition example_world :: world where
  "example_world =
     \<lparr>clock = (\<lambda>k. 1709769900000 + 59500 * int k), reads = 0, tza = (\<lambda>_. 0),
      document = [''day'' \<mapsto> [], ''date'' \<mapsto> [], ''time'' \<mapsto> []]\<rparr>"

subsection \<open>Calendar dates, for reference\<close>

text \<open>
  The standard's \<^verbatim>\<open>MakeTime\<close>, \<^verbatim>\<open>MakeDay\<close> and \<^verbatim>\<open>MakeDate\<close> build a time value from
  calendar fields; they name an instant such as 2024-03-07T00:05:00 by its fields.
  \<open>DaysBeforeMonth\<close> is the day within the year of the first of a month (months
  count from 0), the table behind \<^verbatim>\<open>MonthFromTime\<close>.
\<close>

definition DaysBeforeMonth :: "int \<Rightarrow> int \<Rightarrow> int" where
  "DaysBeforeMonth leap m =
     (if m = 0 then 0 else if m = 1 then 31
      else [59, 90, 120, 151, 181, 212, 243, 273, 304, 334] ! nat (m - 2) + leap)"

definition MakeTime :: "int \<Rightarrow> int \<Rightarrow> int \<Rightarrow> int \<Rightarrow> int" where
  "MakeTime hour minute sec ms =
     hour * msPerHour + minute * msPerMinute + sec * msPerSecond + ms"

definition MakeDay :: "int \<Rightarrow> int \<Rightarrow> int \<Rightarrow> int" where
  "MakeDay year month date =
     (let ym = year + month div 12; mn = month mod 12
      in DayFromYear ym + DaysBeforeMonth (DaysInYear ym - 365) mn + date - 1)"

definition MakeDate :: "int \<Rightarrow> int \<Rightarrow> int" where
  "MakeDate day time = day * msPerDay + time"

text \<open>
  The displayed hour in the words of the specification: the hour modulo 12, with 12 in
  place of 0. The script computes it with \<^verbatim>\<open>%\<close> and a truthiness test instead.
\<close>

definition Hour12 :: "int \<Rightarrow> int" where
  "Hour12 hour = (if hour mod 12 = 0 then 12 else hour mod 12)"

text \<open>
  The weekday of a date of the Gregorian calendar, 0 for Sunday to 6 for Saturday, by
  the usual congruence on year, month (from 0) and day of the month. It is stated on
  the calendar date alone and makes no use of time values: the reference for the
  correct day of the week.
\<close>

definition civil_weekday :: "int \<Rightarrow> int \<Rightarrow> int \<Rightarrow> int" where
  "civil_weekday year month date =
     (let y = (if month < 2 then year - 1 else year)
      in (y + y div 4 - y div 100 + y div 400
          + [0, 3, 2, 5, 0, 3, 5, 1, 4, 6, 2, 4] ! nat month + date) mod 7)"

section \<open>The calendar functions\<close>

subsection \<open>The year of a time value\<close>

text \<open>Stepping a floor division by one, and the length of a year as a difference.\<close>

lemma div_step:
  fixes a n :: int
  assumes "0 < n"
  shows "(a + 1) div n = a div n + (if (a + 1) mod n = 0 then 1 else 0)"
proof (cases "(a + 1) mod n = 0")
  case True
  then have e: "a + 1 = n * ((a + 1) div n)" by auto
  have "a = n * ((a + 1) div n - 1) + (n - 1)"
    using e by (simp add: algebra_simps)
  then have "a div n = (a + 1) div n - 1"
    using assms by (intro int_div_pos_eq[where r = "n - 1"]) auto
  with True show ?thesis by simp
next
  case False
  have "a mod n < n" "0 \<le> a mod n" using assms by auto
  moreover have "a mod n + 1 \<noteq> n"
  proof
    assume eq: "a mod n + 1 = n"
    have "(a + 1) mod n = (a mod n + 1) mod n" by (rule mod_add_left_eq[symmetric])
    also have "\<dots> = 0" unfolding eq by simp
    finally have "(a + 1) mod n = 0" .
    with False show False by simp
  qed
  ultimately have r: "a mod n + 1 < n" by linarith
  have "a + 1 = n * (a div n) + (a mod n + 1)" by simp
  then have "(a + 1) div n = a div n"
    using r \<open>0 \<le> a mod n\<close> by (intro int_div_pos_eq[where r = "a mod n + 1"]) auto
  with False show ?thesis by simp
qed

lemma mod_shift: "(k::int) mod n = 0 \<Longrightarrow> (y - k) mod n = 0 \<longleftrightarrow> y mod n = 0"
  by (metis diff_zero mod_diff_right_eq)

lemma DayFromYear_Suc: "DayFromYear (y + 1) = DayFromYear y + DaysInYear y"
proof -
  have a: "(y + 1 - 1969) div 4 = (y - 1969) div 4 + (if y mod 4 = 0 then 1 else 0)"
    using div_step[of 4 "y - 1969"] mod_shift[of 1968 4 y] by (simp add: algebra_simps)
  have b: "(y + 1 - 1901) div 100 = (y - 1901) div 100 + (if y mod 100 = 0 then 1 else 0)"
    using div_step[of 100 "y - 1901"] mod_shift[of 1900 100 y] by (simp add: algebra_simps)
  have c: "(y + 1 - 1601) div 400 = (y - 1601) div 400 + (if y mod 400 = 0 then 1 else 0)"
    using div_step[of 400 "y - 1601"] mod_shift[of 1600 400 y] by (simp add: algebra_simps)
  have d: "y mod 400 = 0 \<Longrightarrow> y mod 100 = 0" "y mod 100 = 0 \<Longrightarrow> y mod 4 = 0"
    by (auto simp: mod_eq_0_iff_dvd elim: dvd_trans[rotated])
  show ?thesis
    unfolding DayFromYear_def DaysInYear_def a b c using d by auto
qed

text \<open>
  The estimate of the year by mean year length is within one year of the true one, so
  the three candidates that \<open>YearFromTime\<close> tries are enough.
\<close>

lemma DayFromYear_est_lower: "DayFromYear (1970 + (400 * d) div 146097 - 1) \<le> d"
proof -
  define n where "n = (400 * d) div 146097"
  define q4 where "q4 = n div 4"
  define q100 where "q100 = (n + 68) div 100"
  define q400 where "q400 = (n + 368) div 400"
  have n: "146097 * n \<le> 400 * d" unfolding n_def by linarith
  have a: "4 * q4 \<le> n" unfolding q4_def by linarith
  have b: "n - 32 < 100 * q100" unfolding q100_def by linarith
  have c: "400 * q400 \<le> n + 368" unfolding q400_def by linarith
  have "DayFromYear (1970 + n - 1) = 365 * (n - 1) + q4 - q100 + q400"
    by (simp add: DayFromYear_def q4_def q100_def q400_def add.commute)
  moreover have "365 * (n - 1) + q4 - q100 + q400 \<le> d"
  proof -
    have a': "400 * q4 \<le> 100 * n" using a by linarith
    have b': "4 * n - 128 < 400 * q100" using b by linarith
    have "400 * (365 * (n - 1) + q4 - q100 + q400)
          = 146000 * n - 146000 + 400 * q4 - 400 * q100 + 400 * q400"
      by (simp add: algebra_simps)
    also have "\<dots> \<le> 146097 * n" using a' b' c by linarith
    also note n
    finally show ?thesis by simp
  qed
  ultimately show ?thesis unfolding n_def by simp
qed

lemma DayFromYear_est_upper: "d < DayFromYear (1970 + (400 * d) div 146097 + 2)"
proof -
  define n where "n = (400 * d) div 146097"
  define q4 where "q4 = (n + 3) div 4"
  define q100 where "q100 = (n + 71) div 100"
  define q400 where "q400 = (n + 371) div 400"
  have n: "400 * d < 146097 * n + 146097" unfolding n_def by linarith
  have a: "n + 3 < 4 * q4 + 4" unfolding q4_def by linarith
  have b: "100 * q100 \<le> n + 71" unfolding q100_def by linarith
  have c: "n + 371 < 400 * q400 + 400" unfolding q400_def by linarith
  have "DayFromYear (1970 + n + 2) = 365 * (n + 2) + q4 - q100 + q400"
    by (simp add: DayFromYear_def q4_def q100_def q400_def add.commute)
  moreover have "d < 365 * (n + 2) + q4 - q100 + q400"
  proof -
    have a': "100 * n - 100 < 400 * q4" using a by linarith
    have b': "400 * q100 \<le> 4 * n + 284" using b by linarith
    note n
    also have "146097 * n + 146097 \<le> 146000 * n + 292000 + 400 * q4 - 400 * q100 + 400 * q400"
      using a' b' c by linarith
    also have "\<dots> = 400 * (365 * (n + 2) + q4 - q100 + q400)"
      by (simp add: algebra_simps)
    finally show ?thesis by simp
  qed
  ultimately show ?thesis unfolding n_def by simp
qed

lemma YearFromTime_bounds:
  "DayFromYear (YearFromTime t) \<le> Day t \<and> Day t < DayFromYear (YearFromTime t + 1)"
  using DayFromYear_est_lower[of "Day t"] DayFromYear_est_upper[of "Day t"]
  by (simp add: YearFromTime_def Let_def)

lemma DaysInYear_pos: "365 \<le> DaysInYear y" "DaysInYear y \<le> 366"
  by (simp_all add: DaysInYear_def)

lemma DayFromYear_mono: "y \<le> z \<Longrightarrow> DayFromYear y \<le> DayFromYear z"
proof (induction z rule: int_ge_induct)
  case base
  show ?case by simp
next
  case (step i)
  then show ?case using DayFromYear_Suc[of i] DaysInYear_pos(1)[of i] by linarith
qed

lemma DayWithinYear_range: "0 \<le> DayWithinYear t" "DayWithinYear t < DaysInYear (YearFromTime t)"
  using YearFromTime_bounds[of t] DayFromYear_Suc[of "YearFromTime t"]
  by (simp_all add: DayWithinYear_def)

lemma TimeFromYear_le_iff: "TimeFromYear y \<le> t \<longleftrightarrow> DayFromYear y \<le> Day t"
  unfolding TimeFromYear_def Day_def msPerDay_def by linarith

text \<open>\<open>YearFromTime\<close> is the year the standard defines: the greatest with this property.\<close>

lemma YearFromTime_greatest:
  "TimeFromYear (YearFromTime t) \<le> t"
  "TimeFromYear y \<le> t \<Longrightarrow> y \<le> YearFromTime t"
proof -
  show "TimeFromYear (YearFromTime t) \<le> t"
    using YearFromTime_bounds[of t] by (simp add: TimeFromYear_le_iff)
  assume "TimeFromYear y \<le> t"
  then have le: "DayFromYear y \<le> Day t" by (simp add: TimeFromYear_le_iff)
  show "y \<le> YearFromTime t"
  proof (rule ccontr)
    assume "\<not> y \<le> YearFromTime t"
    then have "YearFromTime t + 1 \<le> y" by simp
    then have "DayFromYear (YearFromTime t + 1) \<le> DayFromYear y" by (rule DayFromYear_mono)
    with le YearFromTime_bounds[of t] show False by linarith
  qed
qed

subsection \<open>Ranges of the fields\<close>

lemma InLeapYear_cases: "InLeapYear t = 0 \<or> InLeapYear t = 1"
  by (simp add: InLeapYear_def)

lemma InLeapYear_DaysInYear: "DaysInYear (YearFromTime t) = 365 + InLeapYear t"
  by (simp add: InLeapYear_def DaysInYear_def)

lemma DayWithinYear_less: "DayWithinYear t < 365 + InLeapYear t"
  using DayWithinYear_range(2)[of t] by (simp add: InLeapYear_DaysInYear)

lemma WeekDay_range: "0 \<le> WeekDay t" "WeekDay t < 7"
  by (simp_all add: WeekDay_def)

lemma HourFromTime_range: "0 \<le> HourFromTime t" "HourFromTime t < 24"
  by (simp_all add: HourFromTime_def)

lemma MinFromTime_range: "0 \<le> MinFromTime t" "MinFromTime t < 60"
  by (simp_all add: MinFromTime_def)

lemma SecFromTime_range: "0 \<le> SecFromTime t" "SecFromTime t < 60"
  by (simp_all add: SecFromTime_def)

lemma msFromTime_range: "0 \<le> msFromTime t" "msFromTime t < 1000"
  by (simp_all add: msFromTime_def msPerSecond_def)

lemma MonthFromTime_range: "0 \<le> MonthFromTime t" "MonthFromTime t < 12"
  by (simp_all add: MonthFromTime_def Let_def)

text \<open>
  The day within the year is the first day of the month plus the day of the month: the
  three tables of the standard agree.
\<close>

lemma DayWithinYear_split:
  "DayWithinYear t
   = DaysBeforeMonth (InLeapYear t) (MonthFromTime t) + DateFromTime t - 1"
  using InLeapYear_cases[of t]
  by (auto simp add: DateFromTime_def MonthFromTime_def DaysBeforeMonth_def Let_def)

lemma DateFromTime_range: "1 \<le> DateFromTime t" "DateFromTime t \<le> 31"
  using InLeapYear_cases[of t] DayWithinYear_range(1)[of t] DayWithinYear_less[of t]
  by (auto simp add: DateFromTime_def MonthFromTime_def Let_def)

lemma MakeDay_fields: "MakeDay (YearFromTime t) (MonthFromTime t) (DateFromTime t) = Day t"
proof -
  have m: "MonthFromTime t div 12 = 0" "MonthFromTime t mod 12 = MonthFromTime t"
    using MonthFromTime_range[of t] by simp_all
  show ?thesis
    using DayWithinYear_split[of t]
    by (simp add: MakeDay_def Let_def m InLeapYear_DaysInYear DayWithinYear_def)
qed

subsection \<open>The weekday of a time value is the weekday of its calendar date\<close>

lemma div_shift: "(n::int) \<noteq> 0 \<Longrightarrow> (a - n * k) div n = a div n - k"
  using div_mult_self1[of n a "- k"] by (simp add: algebra_simps)

text \<open>The first day of a year, by the leap days before it.\<close>

lemma DayFromYear_leaps:
  "DayFromYear y
   = 365 * y + ((y - 1) div 4 - (y - 1) div 100 + (y - 1) div 400) - 719527"
proof -
  have "(y - 1969) div 4 = (y - 1) div 4 - 492"
    using div_shift[of 4 "y - 1" 492] by simp
  moreover have "(y - 1901) div 100 = (y - 1) div 100 - 19"
    using div_shift[of 100 "y - 1" 19] by simp
  moreover have "(y - 1601) div 400 = (y - 1) div 400 - 4"
    using div_shift[of 400 "y - 1" 4] by simp
  ultimately show ?thesis by (simp add: DayFromYear_def)
qed

lemma leaps_step:
  "y div 4 - y div 100 + y div 400
   = (y - 1) div 4 - (y - 1) div 100 + (y - 1) div 400 + (DaysInYear y - 365)"
proof -
  have a: "y div 4 = (y - 1) div 4 + (if y mod 4 = 0 then 1 else 0)"
    using div_step[of 4 "y - 1"] by simp
  have b: "y div 100 = (y - 1) div 100 + (if y mod 100 = 0 then 1 else 0)"
    using div_step[of 100 "y - 1"] by simp
  have c: "y div 400 = (y - 1) div 400 + (if y mod 400 = 0 then 1 else 0)"
    using div_step[of 400 "y - 1"] by simp
  have d: "y mod 400 = 0 \<Longrightarrow> y mod 100 = 0" "y mod 100 = 0 \<Longrightarrow> y mod 4 = 0"
    by (auto simp: mod_eq_0_iff_dvd elim: dvd_trans[rotated])
  show ?thesis
    unfolding DaysInYear_def a b c using d by auto
qed

lemma month_cases:
  fixes m :: int
  assumes "0 \<le> m" "m < 12"
  shows "m = 0 \<or> m = 1 \<or> m = 2 \<or> m = 3 \<or> m = 4 \<or> m = 5 \<or> m = 6 \<or> m = 7 \<or> m = 8 \<or> m = 9
         \<or> m = 10 \<or> m = 11"
  using assms by presburger

lemma mod7_eqI: "(x::int) = z + 7 * k \<Longrightarrow> x mod 7 = z mod 7"
  by simp

lemma weekday_congruence:
  fixes y A l w d m :: int
  assumes "0 \<le> m" "m < 12"
    and "w = DaysBeforeMonth l m + d - 1"
  shows "(365 * y + A - 719527 + w + 4) mod 7
         = ((if m < 2 then y - 1 + A else y + (A + l))
            + [0, 3, 2, 5, 0, 3, 5, 1, 4, 6, 2, 4] ! nat m + d) mod 7"
proof -
  have "365 * y + A - 719527 + w + 4
        = (if m < 2 then y - 1 + A else y + (A + l))
          + [0, 3, 2, 5, 0, 3, 5, 1, 4, 6, 2, 4] ! nat m + d
          + 7 * (52 * y - 102789 + [0, 4, 8, 12, 17, 21, 25, 30, 34, 38, 43, 47] ! nat m)"
    using month_cases[OF assms(1,2)] assms(3)
    by (elim disjE) (simp_all add: DaysBeforeMonth_def)
  then show ?thesis by (rule mod7_eqI)
qed
lemma civil_weekday_fields:
  "civil_weekday (YearFromTime t) (MonthFromTime t) (DateFromTime t) = WeekDay t"
proof -
  define y where "y = YearFromTime t"
  define A where "A = (y - 1) div 4 - (y - 1) div 100 + (y - 1) div 400"
  define off :: int where "off = [0, 3, 2, 5, 0, 3, 5, 1, 4, 6, 2, 4] ! nat (MonthFromTime t)"
  have day: "Day t = 365 * y + A - 719527 + DayWithinYear t"
    using DayFromYear_leaps[of y] by (simp add: DayWithinYear_def y_def A_def)
  have ls: "y div 4 - y div 100 + y div 400 = A + InLeapYear t"
    using leaps_step[of y] by (simp add: A_def y_def InLeapYear_DaysInYear)
  have e1: "y - 1 + (y - 1) div 4 - (y - 1) div 100 + (y - 1) div 400 = y - 1 + A"
    by (simp add: A_def)
  have "y + y div 4 - y div 100 + y div 400 = y + (y div 4 - y div 100 + y div 400)"
    by simp
  also have "\<dots> = y + (A + InLeapYear t)"
    by (simp only: ls)
  finally have e2: "y + y div 4 - y div 100 + y div 400 = y + (A + InLeapYear t)" .
  have "civil_weekday y (MonthFromTime t) (DateFromTime t)
        = ((if MonthFromTime t < 2 then y - 1 + A else y + (A + InLeapYear t))
           + off + DateFromTime t) mod 7"
    unfolding civil_weekday_def Let_def off_def[symmetric]
    by (cases "MonthFromTime t < 2") (simp_all only: if_True if_False e1 e2)
  also have "\<dots> = (365 * y + A - 719527 + DayWithinYear t + 4) mod 7"
    unfolding off_def
    by (rule weekday_congruence[OF MonthFromTime_range DayWithinYear_split, symmetric])
  finally show ?thesis by (simp add: WeekDay_def day y_def)
qed

text \<open>
  Four dates whose weekday is on record: Thursday 1 January 1970, Saturday 1 January
  2000, Tuesday 29 February 2000 and Thursday 1 March 1900.
\<close>

lemma civil_weekday_known_dates:
  "civil_weekday 1970 0 1 = 4" "civil_weekday 2000 0 1 = 6" "civil_weekday 2000 1 29 = 2"
  "civil_weekday 1900 2 1 = 4"
  by (simp_all add: civil_weekday_def)

section \<open>The strings\<close>

subsection \<open>Decimal digits\<close>

lemma digits_below_10: "n < 10 \<Longrightarrow> digits n = [''0123456789'' ! n]"
  by (simp add: digits.simps)

lemma digits_two:
  assumes "10 \<le> n" "n < 100"
  shows "digits n = [''0123456789'' ! (n div 10), ''0123456789'' ! (n mod 10)]"
proof -
  have "n div 10 < 10" using assms by simp
  then show ?thesis
    using assms digits.simps[of n] by (simp add: digits_below_10)
qed

lemma digit_nonzero: "0 < k \<Longrightarrow> k < 10 \<Longrightarrow> ''0123456789'' ! k \<noteq> CHR ''0''"
proof -
  assume "0 < k" "k < 10"
  then have "k \<in> {1, 2, 3, 4, 5, 6, 7, 8, 9}" by auto
  then show ?thesis by (elim insertE emptyE) simp_all
qed

lemma digits_not_empty: "digits n \<noteq> []"
  by (subst digits.simps) simp

lemma digits_hd_nonzero: "0 < n \<Longrightarrow> hd (digits n) \<noteq> CHR ''0''"
proof (induction n rule: digits.induct)
  case (1 n)
  show ?case
  proof (cases "n < 10")
    case True
    have "hd (digits n) = ''0123456789'' ! n"
      by (simp only: digits_below_10[OF True] list.sel)
    with digit_nonzero[OF "1.prems" True] show ?thesis by metis
  next
    case False
    then have "0 < n div 10" by simp
    with "1.IH" False have "hd (digits (n div 10)) \<noteq> CHR ''0''" by simp
    then show ?thesis
      using False digits.simps[of n] by (simp add: digits_not_empty)
  qed
qed

subsection \<open>The pieces of the time string\<close>

lemma getHours_range: "0 \<le> getHours tz now" "getHours tz now < 24"
  by (simp_all add: getHours_def HourFromTime_range)

lemma getMinutes_range: "0 \<le> getMinutes tz now" "getMinutes tz now < 60"
  by (simp_all add: getMinutes_def MinFromTime_range)

lemma getSeconds_range: "0 \<le> getSeconds tz now" "getSeconds tz now < 60"
  by (simp_all add: getSeconds_def SecFromTime_range)

lemma getMilliseconds_range: "0 \<le> getMilliseconds tz now" "getMilliseconds tz now < 1000"
  by (simp_all add: getMilliseconds_def msFromTime_range)

lemma getDay_range: "0 \<le> getDay tz now" "getDay tz now < 7"
  by (simp_all add: getDay_def WeekDay_range)

lemma getMonth_range: "0 \<le> getMonth tz now" "getMonth tz now < 12"
  by (simp_all add: getMonth_def MonthFromTime_range)

lemma getDate_range: "1 \<le> getDate tz now" "getDate tz now \<le> 31"
  by (simp_all add: getDate_def DateFromTime_range)

text \<open>On an hour that is not negative, \<^verbatim>\<open>%\<close> and the truthiness test give \<open>Hour12\<close>.\<close>

lemma js_rem_nonneg: "0 \<le> a \<Longrightarrow> 0 < b \<Longrightarrow> js_rem a b = a mod b"
  by (cases "a = 0") (simp_all add: js_rem_def)

lemma hours_reduced:
  "0 \<le> h \<Longrightarrow> (if ToBoolean (Num (js_rem h 12)) then js_rem h 12 else 12) = Hour12 h"
  by (simp add: js_rem_nonneg Hour12_def)

lemma Hour12_range: "1 \<le> Hour12 h" "Hour12 h \<le> 12"
proof -
  have "0 \<le> h mod 12" "h mod 12 < 12" by simp_all
  then show "1 \<le> Hour12 h" "Hour12 h \<le> 12" unfolding Hour12_def by auto
qed

lemma timeStr_parts:
  "timeStr tz now
   = ''- '' @ NumberToString (Hour12 (getHours tz now)) @ '':''
     @ ToString (minutesStr (getMinutes tz now)) @ '' '' @ ampm (getHours tz now) @ '' -''"
  unfolding timeStr_def Let_def hours_reduced[OF getHours_range(1)] by simp

lemma minutesStr_digits:
  assumes "0 \<le> m" "m < 60"
  shows "ToString (minutesStr m)
         = [''0123456789'' ! nat (m div 10), ''0123456789'' ! nat (m mod 10)]"
proof (cases "m < 10")
  case True
  with assms have "nat m < 10" "m div 10 = 0" "m mod 10 = m" by simp_all
  with True assms show ?thesis
    by (simp add: minutesStr_def NumberToString_def digits_below_10)
next
  case False
  with assms have "10 \<le> nat m" "nat m < 100" by simp_all
  from digits_two[OF this] False assms show ?thesis
    by (simp add: minutesStr_def NumberToString_def nat_div_distrib nat_mod_distrib)
qed

section \<open>Rendering and scheduling\<close>

subsection \<open>One call of \<^verbatim>\<open>updateClock\<close>\<close>

lemma target_names_distinct:
  "''day'' \<noteq> ''date''" "''day'' \<noteq> ''time''" "''date'' \<noteq> ''time''"
  by simp_all

lemma textContent_of_Str: "textContent_of (Str s) = s"
  by (simp add: textContent_of_def)

text \<open>
  With the three elements in the document the call reads the clock once, throws
  nothing, and overwrites the three texts with strings of that one reading.
\<close>

lemma updateClock_writes:
  assumes "targets_present w"
  shows "updateClock w
         = (w\<lparr>reads := Suc (reads w),
              document := (document w)
                (''day'' \<mapsto> textContent_of (dayVal (tza w) (clock w (reads w))),
                 ''date'' \<mapsto> dateStr (tza w) (clock w (reads w)),
                 ''time'' \<mapsto> timeStr (tza w) (clock w (reads w)))\<rparr>, None)"
proof -
  from assms obtain a b c where
    "document w ''day'' = Some a" "document w ''date'' = Some b" "document w ''time'' = Some c"
    by (auto simp add: targets_present_def)
  then show ?thesis
    by (simp add: updateClock_def new_Date_def set_textContent_def Let_def
        textContent_of_Str)
qed

lemma updateClock_reads: "reads (fst (updateClock w)) = Suc (reads w)"
  by (simp add: updateClock_def new_Date_def set_textContent_def Let_def
      split: option.splits prod.splits)

lemma updateClock_keeps:
  assumes "targets_present w"
  shows "targets_present (fst (updateClock w))"
    and "clock (fst (updateClock w)) = clock w"
    and "tza (fst (updateClock w)) = tza w"
  using assms by (simp_all add: updateClock_writes targets_present_def)

text \<open>Without the element \<^verbatim>\<open>day\<close> the call throws before it writes anything.\<close>

lemma updateClock_missing_day:
  "document w ''day'' = None \<Longrightarrow> updateClock w = (w\<lparr>reads := Suc (reads w)\<rparr>, Some TypeError)"
  by (simp add: updateClock_def new_Date_def set_textContent_def)

subsection \<open>The timer chain\<close>

lemma msUntilNextMinute_range:
  "1 \<le> msUntilNextMinute tz now" "msUntilNextMinute tz now \<le> 60000"
  using getSeconds_range[of tz now] getMilliseconds_range[of tz now]
  by (simp_all add: msUntilNextMinute_def)

text \<open>The delay ends on a whole minute of local time.\<close>

lemma msUntilNextMinute_aligned:
  "(LocalTime tz now + msUntilNextMinute tz now) mod 60000 = 0"
proof -
  define t where "t = LocalTime tz now"
  define q where "q = t div 1000"
  have a: "t = 1000 * q + t mod 1000" by (simp add: q_def)
  have b: "q = 60 * (q div 60) + q mod 60" by simp
  have "t + ((60 - q mod 60) * 1000 - t mod 1000) = 1000 * (q - q mod 60) + 60000"
    using a by (simp add: algebra_simps)
  also have "q - q mod 60 = 60 * (q div 60)" by (rule minus_mod_eq_mult_div)
  finally have "t + ((60 - q mod 60) * 1000 - t mod 1000) = 60000 * (q div 60 + 1)"
    by (simp add: algebra_simps)
  moreover have "LocalTime tz now + msUntilNextMinute tz now
                 = t + ((60 - q mod 60) * 1000 - t mod 1000)"
    by (simp add: msUntilNextMinute_def getSeconds_def getMilliseconds_def SecFromTime_def
        msFromTime_def msPerSecond_def t_def q_def)
  ultimately have "LocalTime tz now + msUntilNextMinute tz now = 60000 * (q div 60 + 1)"
    by (simp only:)
  then show ?thesis by (simp only: mod_mult_self1_is_0)
qed

lemma call_updateClock_ok:
  assumes "targets_present (host r)"
  shows "call_updateClock r
         = (r\<lparr>host := fst (updateClock (host r)), calls := calls r @ [elapsed r]\<rparr>, None)"
  using updateClock_writes[OF assms] by (simp add: call_updateClock_def)

text \<open>The state the script leaves: one call made, and the one-shot timer pending.\<close>

lemma boot_state:
  assumes "targets_present w"
  shows "boot w
         = (\<lparr>host = (fst (updateClock w))\<lparr>reads := Suc (Suc (reads w))\<rparr>,
             elapsed = 0,
             timers = [\<lparr>handler = Arrow,
                        due = msUntilNextMinute (tza w) (clock w (Suc (reads w))),
                        period = None\<rparr>],
             calls = [0], uncaught = []\<rparr>, None)"
proof -
  let ?r0 = "\<lparr>host = w, elapsed = 0, timers = [], calls = [], uncaught = []\<rparr>"
  have c: "call_updateClock ?r0
           = (?r0\<lparr>host := fst (updateClock w), calls := [0]\<rparr>, None)"
    using call_updateClock_ok[of ?r0] assms by simp
  have m: "max 0 (msUntilNextMinute (tza w) (clock w (Suc (reads w))))
           = msUntilNextMinute (tza w) (clock w (Suc (reads w)))"
    using msUntilNextMinute_range(1)[of "tza w" "clock w (Suc (reads w))"] by simp
  show ?thesis
    unfolding boot_def script_def c
    by (simp add: new_Date_def setTimeout_def Let_def updateClock_keeps[OF assms]
        updateClock_reads m)
qed

text \<open>Without the element \<^verbatim>\<open>day\<close> the script stops at its first statement: no timer.\<close>

lemma boot_missing_day:
  "document w ''day'' = None \<Longrightarrow> timers (fst (boot w)) = [] \<and> snd (boot w) = Some TypeError"
  by (simp add: boot_def script_def call_updateClock_def updateClock_missing_day)

lemma step_arrow:
  assumes "targets_present (host r)" "timers r = [\<lparr>handler = Arrow, due = d, period = None\<rparr>]"
    and "elapsed r = 0" "0 \<le> d" "calls r = [0]" "uncaught r = []"
  shows "\<exists>r'. step r = Some r' \<and> ticking d 0 r'"
proof -
  let ?r1 = "r\<lparr>elapsed := d, timers := []\<rparr>"
  have c: "call_updateClock ?r1
           = (?r1\<lparr>host := fst (updateClock (host r)), calls := [0, d]\<rparr>, None)"
    using call_updateClock_ok[of ?r1] assms by simp
  have "step r = Some (setInterval UpdateClock 60000
                  (?r1\<lparr>host := fst (updateClock (host r)), calls := [0, d]\<rparr>))"
    using assms by (simp add: step_def c)
  then show ?thesis
    using assms by (simp add: ticking_def setInterval_def updateClock_keeps)
qed

lemma step_tick:
  assumes "ticking d n r"
  shows "\<exists>r'. step r = Some r' \<and> ticking d (Suc n) r'"
proof -
  define D where "D = d + 60000 * (int n + 1)"
  from assms have a: "targets_present (host r)" "elapsed r = d + 60000 * int n"
    "timers r = [\<lparr>handler = UpdateClock, due = D, period = Some 60000\<rparr>]"
    "calls r = 0 # map (\<lambda>k. d + 60000 * int k) [0..<Suc n]"
    "uncaught r = []"
    by (simp_all add: ticking_def D_def)
  have e: "max (elapsed r) D = D" using a(2) by (simp add: D_def)
  have "step r
        = Some (r\<lparr>elapsed := D,
                  timers := [\<lparr>handler = UpdateClock, due = D + 60000, period = Some 60000\<rparr>],
                  host := fst (updateClock (host r)), calls := calls r @ [D]\<rparr>)"
    using a(1) by (simp add: step_def a(3) e call_updateClock_ok)
  moreover have "D = d + 60000 * int (Suc n)" "D + 60000 = d + 60000 * (int (Suc n) + 1)"
    by (simp_all add: D_def)
  ultimately show ?thesis
    using a by (simp add: ticking_def updateClock_keeps)
qed

lemma steps_Suc_last:
  "steps (Suc n) r = (case steps n r of None \<Rightarrow> None | Some r' \<Rightarrow> step r')"
proof (induction n arbitrary: r)
  case 0
  show ?case by (simp split: option.splits)
next
  case (Suc n)
  have "steps (Suc (Suc n)) r
        = (case step r of None \<Rightarrow> None | Some r1 \<Rightarrow> steps (Suc n) r1)"
    by simp
  also have "\<dots> = (case step r of None \<Rightarrow> None
                   | Some r1 \<Rightarrow> (case steps n r1 of None \<Rightarrow> None | Some r' \<Rightarrow> step r'))"
    by (simp only: Suc.IH)
  also have "\<dots> = (case steps (Suc n) r of None \<Rightarrow> None | Some r' \<Rightarrow> step r')"
    by (simp split: option.splits)
  finally show ?case .
qed

lemma steps_ticking:
  assumes "targets_present w"
  shows "\<exists>r. steps (Suc n) (fst (boot w)) = Some r
             \<and> ticking (msUntilNextMinute (tza w) (clock w (Suc (reads w)))) n r"
proof (induction n)
  case 0
  let ?d = "msUntilNextMinute (tza w) (clock w (Suc (reads w)))"
  have "\<exists>r'. step (fst (boot w)) = Some r' \<and> ticking ?d 0 r'"
    using msUntilNextMinute_range(1)[of "tza w" "clock w (Suc (reads w))"]
    using updateClock_keeps(1)[OF assms]
    by (intro step_arrow) (simp_all add: boot_state[OF assms] targets_present_def)
  then show ?case by auto
next
  case (Suc n)
  then obtain r where r: "steps (Suc n) (fst (boot w)) = Some r"
    "ticking (msUntilNextMinute (tza w) (clock w (Suc (reads w)))) n r" by blast
  from step_tick[OF r(2)] obtain r' where r':
    "step r = Some r'" "ticking (msUntilNextMinute (tza w) (clock w (Suc (reads w)))) (Suc n) r'"
    by blast
  have "steps (Suc (Suc n)) (fst (boot w)) = Some r'"
    by (simp only: steps_Suc_last[of "Suc n"] r(1) r'(1) option.case)
  with r'(2) show ?case by blast
qed

section \<open>The time string\<close>

text \<open>
  C1: for every instant the time string shows the hour as \<open>Hour12\<close> of the 24-hour
  value, a number from 1 to 12, and the tag is PM exactly from hour 12 on; hour 0 gives
  "12 ... AM", hour 12 gives "12 ... PM" and hour 13 gives "1 ... PM".
\<close>

theorem timeStr_hour_component:
  "timeStr tz now
   = ''- '' @ NumberToString (Hour12 (getHours tz now)) @ '':''
     @ ToString (minutesStr (getMinutes tz now)) @ '' ''
     @ (if 12 \<le> getHours tz now then ''PM'' else ''AM'') @ '' -''
   \<and> 1 \<le> Hour12 (getHours tz now) \<and> Hour12 (getHours tz now) \<le> 12
   \<and> (getHours tz now = 0 \<longrightarrow>
        timeStr tz now = ''- 12:'' @ ToString (minutesStr (getMinutes tz now)) @ '' AM -'')
   \<and> (getHours tz now = 12 \<longrightarrow>
        timeStr tz now = ''- 12:'' @ ToString (minutesStr (getMinutes tz now)) @ '' PM -'')
   \<and> (getHours tz now = 13 \<longrightarrow>
        timeStr tz now = ''- 1:'' @ ToString (minutesStr (getMinutes tz now)) @ '' PM -'')"
proof -
  have n12: "NumberToString 12 = ''12''" and n1: "NumberToString 1 = ''1''"
    by (simp_all add: NumberToString_def digits.simps)
  show ?thesis
    using Hour12_range[of "getHours tz now"]
    by (simp add: timeStr_parts ampm_def) (simp add: Hour12_def n12 n1)
qed

theorem timeStr_hour_component_witness:
  "getHours (\<lambda>_. 0) 300000 = 0 \<and> timeStr (\<lambda>_. 0) 300000 = ''- 12:05 AM -''
   \<and> getHours (\<lambda>_. 0) 43200000 = 12 \<and> timeStr (\<lambda>_. 0) 43200000 = ''- 12:00 PM -''
   \<and> getHours (\<lambda>_. 0) 49500000 = 13 \<and> timeStr (\<lambda>_. 0) 49500000 = ''- 1:45 PM -''"
proof -
  have h: "getHours (\<lambda>_. 0) 300000 = 0" "getHours (\<lambda>_. 0) 43200000 = 12"
    "getHours (\<lambda>_. 0) 49500000 = 13"
    by (simp_all add: getHours_def HourFromTime_def LocalTime_def msPerHour_def)
  have m: "ToString (minutesStr (getMinutes (\<lambda>_. 0) 300000)) = ''05''"
    "ToString (minutesStr (getMinutes (\<lambda>_. 0) 43200000)) = ''00''"
    "ToString (minutesStr (getMinutes (\<lambda>_. 0) 49500000)) = ''45''"
    by (simp_all add: getMinutes_def MinFromTime_def LocalTime_def msPerMinute_def
        minutesStr_def NumberToString_def digits.simps)
  note c = timeStr_hour_component[THEN conjunct2, THEN conjunct2, THEN conjunct2]
  have "timeStr (\<lambda>_. 0) 300000 = ''- 12:05 AM -''"
    using c[THEN conjunct1, rule_format, OF h(1)] by (simp add: m)
  moreover have "timeStr (\<lambda>_. 0) 43200000 = ''- 12:00 PM -''"
    using c[THEN conjunct2, THEN conjunct1, rule_format, OF h(2)] by (simp add: m)
  moreover have "timeStr (\<lambda>_. 0) 49500000 = ''- 1:45 PM -''"
    using c[THEN conjunct2, THEN conjunct2, rule_format, OF h(3)] by (simp add: m)
  ultimately show ?thesis using h by simp
qed

text \<open>
  C2: for every instant the minute is from 0 to 59 and is shown in the time string as
  exactly two digits, the tens and the units; a zero is put in front exactly when the
  minute is below 10. Minute 5 gives "05", 45 gives "45", 0 gives "00".
\<close>

theorem timeStr_minute_component:
  "0 \<le> getMinutes tz now \<and> getMinutes tz now \<le> 59
   \<and> timeStr tz now
     = ''- '' @ NumberToString (Hour12 (getHours tz now)) @ '':''
       @ [''0123456789'' ! nat (getMinutes tz now div 10),
          ''0123456789'' ! nat (getMinutes tz now mod 10)]
       @ '' '' @ ampm (getHours tz now) @ '' -''
   \<and> length (ToString (minutesStr (getMinutes tz now))) = 2
   \<and> (getMinutes tz now < 10 \<longrightarrow>
        ToString (minutesStr (getMinutes tz now))
        = ''0'' @ NumberToString (getMinutes tz now))
   \<and> (10 \<le> getMinutes tz now \<longrightarrow>
        ToString (minutesStr (getMinutes tz now)) = NumberToString (getMinutes tz now))
   \<and> ToString (minutesStr 5) = ''05'' \<and> ToString (minutesStr 45) = ''45''
   \<and> ToString (minutesStr 0) = ''00''"
proof -
  have r: "0 \<le> getMinutes tz now" "getMinutes tz now < 60" by (rule getMinutes_range)+
  have c: "ToString (minutesStr 5) = ''05''" "ToString (minutesStr 45) = ''45''"
    "ToString (minutesStr 0) = ''00''"
    by (simp_all add: minutesStr_def NumberToString_def digits.simps)
  have le: "getMinutes tz now \<le> 59" using r(2) by simp
  have parts: "timeStr tz now
     = ''- '' @ NumberToString (Hour12 (getHours tz now)) @ '':''
       @ [''0123456789'' ! nat (getMinutes tz now div 10),
          ''0123456789'' ! nat (getMinutes tz now mod 10)]
       @ '' '' @ ampm (getHours tz now) @ '' -''"
    by (simp only: timeStr_parts minutesStr_digits[OF r])
  have len: "length (ToString (minutesStr (getMinutes tz now))) = 2"
    by (simp add: minutesStr_digits[OF r])
  have lt: "getMinutes tz now < 10 \<longrightarrow>
        ToString (minutesStr (getMinutes tz now)) = ''0'' @ NumberToString (getMinutes tz now)"
    by (simp add: minutesStr_def)
  have ge: "10 \<le> getMinutes tz now \<longrightarrow>
        ToString (minutesStr (getMinutes tz now)) = NumberToString (getMinutes tz now)"
    by (simp add: minutesStr_def)
  from r(1) le parts len lt ge c show ?thesis by blast
qed

theorem timeStr_minute_component_witness:
  "getMinutes (\<lambda>_. 0) 300000 < 10
   \<and> ToString (minutesStr (getMinutes (\<lambda>_. 0) 300000)) = ''05''
   \<and> timeStr (\<lambda>_. 0) 300000 = ''- 12:05 AM -''
   \<and> 10 \<le> getMinutes (\<lambda>_. 0) 49500000
   \<and> ToString (minutesStr (getMinutes (\<lambda>_. 0) 49500000)) = ''45''
   \<and> timeStr (\<lambda>_. 0) 49500000 = ''- 1:45 PM -''"
proof -
  have m: "getMinutes (\<lambda>_. 0) 300000 = 5" "getMinutes (\<lambda>_. 0) 49500000 = 45"
    by (simp_all add: getMinutes_def MinFromTime_def LocalTime_def msPerMinute_def)
  have lt: "getMinutes (\<lambda>_. 0) 300000 < 10" and ge: "10 \<le> getMinutes (\<lambda>_. 0) 49500000"
    by (simp_all add: m)
  have h: "getHours (\<lambda>_. 0) 300000 = 0" "getHours (\<lambda>_. 0) 49500000 = 13"
    by (simp_all add: getHours_def HourFromTime_def LocalTime_def msPerHour_def)
  have n: "NumberToString 12 = ''12''" "NumberToString 1 = ''1''"
    "NumberToString 5 = ''5''" "NumberToString 45 = ''45''"
    by (simp_all add: NumberToString_def digits.simps)
  note c = timeStr_minute_component[THEN conjunct2, THEN conjunct2]
  note d = c[THEN conjunct2, THEN conjunct2]
  have "ToString (minutesStr (getMinutes (\<lambda>_. 0) 300000)) = ''05''"
    using d[THEN conjunct1, rule_format, OF lt] by (simp add: m n)
  moreover have "ToString (minutesStr (getMinutes (\<lambda>_. 0) 49500000)) = ''45''"
    using d[THEN conjunct2, THEN conjunct1, rule_format, OF ge] by (simp add: m n)
  moreover have "timeStr (\<lambda>_. 0) 300000 = ''- 12:05 AM -''"
    using c[THEN conjunct1, of "\<lambda>_. 0" 300000] by (simp add: m h n Hour12_def ampm_def)
  moreover have "timeStr (\<lambda>_. 0) 49500000 = ''- 1:45 PM -''"
    using c[THEN conjunct1, of "\<lambda>_. 0" 49500000] by (simp add: m h n Hour12_def ampm_def)
  ultimately show ?thesis using lt ge by simp
qed

section \<open>The alignment delay\<close>

lemma example_world_targets: "targets_present example_world"
  by (simp add: targets_present_def example_world_def)

text \<open>
  C3: at every instant the seconds are from 0 to 59, the milliseconds from 0 to 999, and
  the delay is \<open>(60 - s) * 1000 - m\<close>; with 59 s and 500 ms it is 500, and on the
  minute itself (0 s, 0 ms) it is 60000, not 0. Every such \<open>s\<close> and \<open>m\<close> occurs. At
  startup this delay, taken at the script's second reading of the clock, is the delay of
  the one-shot timer.
\<close>

theorem msUntilNextMinute_formula:
  "(\<forall>s m. getSeconds tz now = s \<and> getMilliseconds tz now = m \<longrightarrow>
          0 \<le> s \<and> s \<le> 59 \<and> 0 \<le> m \<and> m \<le> 999
          \<and> msUntilNextMinute tz now = (60 - s) * 1000 - m)
   \<and> (getSeconds tz now = 59 \<and> getMilliseconds tz now = 500 \<longrightarrow>
        msUntilNextMinute tz now = 500)
   \<and> (getSeconds tz now = 0 \<and> getMilliseconds tz now = 0 \<longrightarrow>
        msUntilNextMinute tz now = 60000)
   \<and> (0 \<le> s' \<and> s' \<le> 59 \<and> 0 \<le> m' \<and> m' \<le> 999 \<longrightarrow>
        getSeconds (\<lambda>_. 0) (1000 * s' + m') = s'
        \<and> getMilliseconds (\<lambda>_. 0) (1000 * s' + m') = m'
        \<and> msUntilNextMinute (\<lambda>_. 0) (1000 * s' + m') = (60 - s') * 1000 - m')
   \<and> (targets_present w \<longrightarrow>
        timers (fst (boot w))
        = [\<lparr>handler = Arrow,
             due = (60 - getSeconds (tza w) (clock w (Suc (reads w)))) * 1000
                   - getMilliseconds (tza w) (clock w (Suc (reads w))),
             period = None\<rparr>])"
proof -
  have a: "\<forall>s m. getSeconds tz now = s \<and> getMilliseconds tz now = m \<longrightarrow>
          0 \<le> s \<and> s \<le> 59 \<and> 0 \<le> m \<and> m \<le> 999
          \<and> msUntilNextMinute tz now = (60 - s) * 1000 - m"
    using getSeconds_range[of tz now] getMilliseconds_range[of tz now]
    by (auto simp add: msUntilNextMinute_def)
  have b: "getSeconds tz now = 59 \<and> getMilliseconds tz now = 500 \<longrightarrow>
        msUntilNextMinute tz now = 500"
    and c: "getSeconds tz now = 0 \<and> getMilliseconds tz now = 0 \<longrightarrow>
        msUntilNextMinute tz now = 60000"
    by (simp_all add: msUntilNextMinute_def)
  have d: "0 \<le> s' \<and> s' \<le> 59 \<and> 0 \<le> m' \<and> m' \<le> 999 \<longrightarrow>
        getSeconds (\<lambda>_. 0) (1000 * s' + m') = s'
        \<and> getMilliseconds (\<lambda>_. 0) (1000 * s' + m') = m'
        \<and> msUntilNextMinute (\<lambda>_. 0) (1000 * s' + m') = (60 - s') * 1000 - m'"
  proof
    assume r: "0 \<le> s' \<and> s' \<le> 59 \<and> 0 \<le> m' \<and> m' \<le> 999"
    then have "(1000 * s' + m') div 1000 = s'" "(1000 * s' + m') mod 1000 = m'"
      "s' mod 60 = s'"
      by simp_all
    then have "getSeconds (\<lambda>_. 0) (1000 * s' + m') = s'"
      "getMilliseconds (\<lambda>_. 0) (1000 * s' + m') = m'"
      by (simp_all add: getSeconds_def getMilliseconds_def SecFromTime_def msFromTime_def
          LocalTime_def msPerSecond_def)
    then show "getSeconds (\<lambda>_. 0) (1000 * s' + m') = s'
        \<and> getMilliseconds (\<lambda>_. 0) (1000 * s' + m') = m'
        \<and> msUntilNextMinute (\<lambda>_. 0) (1000 * s' + m') = (60 - s') * 1000 - m'"
      by (simp add: msUntilNextMinute_def)
  qed
  have e: "targets_present w \<longrightarrow>
        timers (fst (boot w))
        = [\<lparr>handler = Arrow,
             due = (60 - getSeconds (tza w) (clock w (Suc (reads w)))) * 1000
                   - getMilliseconds (tza w) (clock w (Suc (reads w))),
             period = None\<rparr>]"
    by (simp add: boot_state msUntilNextMinute_def)
  from a b c d e show ?thesis by blast
qed

theorem msUntilNextMinute_formula_witness:
  "getSeconds (\<lambda>_. 0) 59500 = 59 \<and> getMilliseconds (\<lambda>_. 0) 59500 = 500
   \<and> msUntilNextMinute (\<lambda>_. 0) 59500 = 500
   \<and> getSeconds (\<lambda>_. 0) 0 = 0 \<and> getMilliseconds (\<lambda>_. 0) 0 = 0
   \<and> msUntilNextMinute (\<lambda>_. 0) 0 = 60000
   \<and> targets_present example_world
   \<and> timers (fst (boot example_world)) = [\<lparr>handler = Arrow, due = 500, period = None\<rparr>]"
proof -
  have g: "getSeconds (\<lambda>_. 0) 59500 = 59 \<and> getMilliseconds (\<lambda>_. 0) 59500 = 500"
    "getSeconds (\<lambda>_. 0) 0 = 0 \<and> getMilliseconds (\<lambda>_. 0) 0 = 0"
    by (simp_all add: getSeconds_def getMilliseconds_def SecFromTime_def msFromTime_def
        LocalTime_def msPerSecond_def)
  have x: "getSeconds (tza example_world) (clock example_world (Suc (reads example_world))) = 59"
    "getMilliseconds (tza example_world) (clock example_world (Suc (reads example_world))) = 500"
    by (simp_all add: example_world_def getSeconds_def getMilliseconds_def SecFromTime_def
        msFromTime_def LocalTime_def msPerSecond_def)
  note t = msUntilNextMinute_formula[THEN conjunct2]
  have "msUntilNextMinute (\<lambda>_. 0) 59500 = 500"
    by (rule t[THEN conjunct1, rule_format, OF g(1)])
  moreover have "msUntilNextMinute (\<lambda>_. 0) 0 = 60000"
    by (rule t[THEN conjunct2, THEN conjunct1, rule_format, OF g(2)])
  moreover have "timers (fst (boot example_world))
                 = [\<lparr>handler = Arrow, due = 500, period = None\<rparr>]"
    using t[THEN conjunct2, THEN conjunct2, THEN conjunct2, rule_format,
        OF example_world_targets]
    by (simp add: x)
  ultimately show ?thesis using g example_world_targets by simp
qed

section \<open>The strings of one render\<close>

text \<open>The three strings depend on the instant through its local time only.\<close>

lemma strings_of_local_time:
  assumes "LocalTime tz now = LocalTime tz' now'"
  shows "dayVal tz now = dayVal tz' now'" "dateStr tz now = dateStr tz' now'"
    "timeStr tz now = timeStr tz' now'"
  using assms
  by (simp_all add: dayVal_def dateStr_def timeStr_def getDay_def getMonth_def getDate_def
      getFullYear_def getHours_def getMinutes_def)

lemma LocalTime_utc: "LocalTime (\<lambda>_. 0) t = t"
  by (simp add: LocalTime_def)

lemma instant_2024_03_07:
  "MakeDate (MakeDay 2024 2 7) (MakeTime 0 5 0 0) = 1709769900000"
  by (simp add: MakeDate_def MakeDay_def MakeTime_def DayFromYear_def DaysInYear_def
      DaysBeforeMonth_def msPerDay_def msPerHour_def msPerMinute_def msPerSecond_def)

lemma instant_2024_12_31:
  "MakeDate (MakeDay 2024 11 31) (MakeTime 23 59 0 0) = 1735689540000"
  by (simp add: MakeDate_def MakeDay_def MakeTime_def DayFromYear_def DaysInYear_def
      DaysBeforeMonth_def msPerDay_def msPerHour_def msPerMinute_def msPerSecond_def)

lemmas calendar_eval =
  getDay_def getMonth_def getDate_def getFullYear_def getHours_def getMinutes_def
  LocalTime_def WeekDay_def Day_def YearFromTime_def DayFromYear_def DaysInYear_def
  DayWithinYear_def InLeapYear_def MonthFromTime_def DateFromTime_def HourFromTime_def
  MinFromTime_def msPerDay_def msPerHour_def msPerMinute_def Let_def

lemma strings_2024_03_07:
  "dayVal (\<lambda>_. 0) 1709769900000 = Str ''Thursday''"
  "dateStr (\<lambda>_. 0) 1709769900000 = ''March 7, 2024''"
  "timeStr (\<lambda>_. 0) 1709769900000 = ''- 12:05 AM -''"
  by (simp_all add: dayVal_def dateStr_def timeStr_def calendar_eval array_get_def days_def
      months_def NumberToString_def digits.simps ampm_def minutesStr_def js_rem_def)

lemma strings_2024_12_31:
  "dayVal (\<lambda>_. 0) 1735689540000 = Str ''Tuesday''"
  "dateStr (\<lambda>_. 0) 1735689540000 = ''December 31, 2024''"
  "timeStr (\<lambda>_. 0) 1735689540000 = ''- 11:59 PM -''"
  by (simp_all add: dayVal_def dateStr_def timeStr_def calendar_eval array_get_def days_def
      months_def NumberToString_def digits.simps ampm_def minutesStr_def js_rem_def)

text \<open>
  C4: a render at local time 2024-03-07T00:05:00 computes "Thursday", "March 7, 2024"
  and "- 12:05 AM -", and one at 2024-12-31T23:59:00 computes "Tuesday",
  "December 31, 2024" and "- 11:59 PM -"; with the three elements in the document,
  these are the texts the document holds after the call.
\<close>

theorem updateClock_end_to_end:
  "(LocalTime (tza w) (clock w (reads w)) = MakeDate (MakeDay 2024 2 7) (MakeTime 0 5 0 0) \<longrightarrow>
      dayVal (tza w) (clock w (reads w)) = Str ''Thursday''
      \<and> dateStr (tza w) (clock w (reads w)) = ''March 7, 2024''
      \<and> timeStr (tza w) (clock w (reads w)) = ''- 12:05 AM -''
      \<and> (targets_present w \<longrightarrow>
           document (fst (updateClock w)) ''day'' = Some ''Thursday''
           \<and> document (fst (updateClock w)) ''date'' = Some ''March 7, 2024''
           \<and> document (fst (updateClock w)) ''time'' = Some ''- 12:05 AM -''))
   \<and> (LocalTime (tza w) (clock w (reads w)) = MakeDate (MakeDay 2024 11 31) (MakeTime 23 59 0 0) \<longrightarrow>
      dayVal (tza w) (clock w (reads w)) = Str ''Tuesday''
      \<and> dateStr (tza w) (clock w (reads w)) = ''December 31, 2024''
      \<and> timeStr (tza w) (clock w (reads w)) = ''- 11:59 PM -''
      \<and> (targets_present w \<longrightarrow>
           document (fst (updateClock w)) ''day'' = Some ''Tuesday''
           \<and> document (fst (updateClock w)) ''date'' = Some ''December 31, 2024''
           \<and> document (fst (updateClock w)) ''time'' = Some ''- 11:59 PM -''))"
proof (intro conjI impI)
  assume "LocalTime (tza w) (clock w (reads w)) = MakeDate (MakeDay 2024 2 7) (MakeTime 0 5 0 0)"
  then have l: "LocalTime (tza w) (clock w (reads w)) = LocalTime (\<lambda>_. 0) 1709769900000"
    by (simp only: instant_2024_03_07 LocalTime_utc)
  show s: "dayVal (tza w) (clock w (reads w)) = Str ''Thursday''"
    "dateStr (tza w) (clock w (reads w)) = ''March 7, 2024''"
    "timeStr (tza w) (clock w (reads w)) = ''- 12:05 AM -''"
    by (simp_all only: strings_of_local_time[OF l] strings_2024_03_07)
  assume "targets_present w"
  then show "document (fst (updateClock w)) ''day'' = Some ''Thursday''"
    "document (fst (updateClock w)) ''date'' = Some ''March 7, 2024''"
    "document (fst (updateClock w)) ''time'' = Some ''- 12:05 AM -''"
    by (simp_all add: updateClock_writes s textContent_of_Str)
next
  assume "LocalTime (tza w) (clock w (reads w)) = MakeDate (MakeDay 2024 11 31) (MakeTime 23 59 0 0)"
  then have l: "LocalTime (tza w) (clock w (reads w)) = LocalTime (\<lambda>_. 0) 1735689540000"
    by (simp only: instant_2024_12_31 LocalTime_utc)
  show s: "dayVal (tza w) (clock w (reads w)) = Str ''Tuesday''"
    "dateStr (tza w) (clock w (reads w)) = ''December 31, 2024''"
    "timeStr (tza w) (clock w (reads w)) = ''- 11:59 PM -''"
    by (simp_all only: strings_of_local_time[OF l] strings_2024_12_31)
  assume "targets_present w"
  then show "document (fst (updateClock w)) ''day'' = Some ''Tuesday''"
    "document (fst (updateClock w)) ''date'' = Some ''December 31, 2024''"
    "document (fst (updateClock w)) ''time'' = Some ''- 11:59 PM -''"
    by (simp_all add: updateClock_writes s textContent_of_Str)
qed

theorem updateClock_end_to_end_witness:
  "LocalTime (tza example_world) (clock example_world (reads example_world))
     = MakeDate (MakeDay 2024 2 7) (MakeTime 0 5 0 0)
   \<and> targets_present example_world
   \<and> document (fst (updateClock example_world)) ''day'' = Some ''Thursday''
   \<and> document (fst (updateClock example_world)) ''date'' = Some ''March 7, 2024''
   \<and> document (fst (updateClock example_world)) ''time'' = Some ''- 12:05 AM -''
   \<and> LocalTime (tza (example_world\<lparr>clock := \<lambda>_. 1735689540000\<rparr>))
        (clock (example_world\<lparr>clock := \<lambda>_. 1735689540000\<rparr>)
           (reads (example_world\<lparr>clock := \<lambda>_. 1735689540000\<rparr>)))
     = MakeDate (MakeDay 2024 11 31) (MakeTime 23 59 0 0)
   \<and> targets_present (example_world\<lparr>clock := \<lambda>_. 1735689540000\<rparr>)
   \<and> document (fst (updateClock (example_world\<lparr>clock := \<lambda>_. 1735689540000\<rparr>))) ''day''
     = Some ''Tuesday''
   \<and> document (fst (updateClock (example_world\<lparr>clock := \<lambda>_. 1735689540000\<rparr>))) ''date''
     = Some ''December 31, 2024''
   \<and> document (fst (updateClock (example_world\<lparr>clock := \<lambda>_. 1735689540000\<rparr>))) ''time''
     = Some ''- 11:59 PM -''"
proof -
  let ?w = "example_world\<lparr>clock := \<lambda>_. 1735689540000\<rparr>"
  have a: "LocalTime (tza example_world) (clock example_world (reads example_world))
           = MakeDate (MakeDay 2024 2 7) (MakeTime 0 5 0 0)"
    by (simp add: instant_2024_03_07 example_world_def LocalTime_def)
  have b: "LocalTime (tza ?w) (clock ?w (reads ?w))
           = MakeDate (MakeDay 2024 11 31) (MakeTime 23 59 0 0)"
    by (simp add: instant_2024_12_31 example_world_def LocalTime_def)
  have t: "targets_present ?w"
    using example_world_targets by (simp add: targets_present_def)
  note x = updateClock_end_to_end[THEN conjunct1, rule_format, OF a,
      THEN conjunct2, THEN conjunct2, THEN conjunct2, rule_format, OF example_world_targets]
  note y = updateClock_end_to_end[THEN conjunct2, rule_format, OF b,
      THEN conjunct2, THEN conjunct2, THEN conjunct2, rule_format, OF t]
  from a b t x y example_world_targets show ?thesis by blast
qed

text \<open>
  C5: for every instant the value written to \<^verbatim>\<open>day\<close> is the entry of the
  seven-name table, Sunday first, at the instant's day of the week, and that day of the
  week is the weekday of the instant's calendar date (year, month, day of the month) in
  the Gregorian calendar.
\<close>

theorem dayVal_correct:
  "dayVal tz now = Str (days ! nat (getDay tz now))
   \<and> getDay tz now = civil_weekday (getFullYear tz now) (getMonth tz now) (getDate tz now)
   \<and> MakeDay (getFullYear tz now) (getMonth tz now) (getDate tz now) = Day (LocalTime tz now)
   \<and> 0 \<le> getDay tz now \<and> getDay tz now \<le> 6
   \<and> days = [''Sunday'', ''Monday'', ''Tuesday'', ''Wednesday'', ''Thursday'', ''Friday'',
             ''Saturday'']
   \<and> (targets_present w \<longrightarrow>
        document (fst (updateClock w)) ''day''
        = Some (days ! nat (civil_weekday (getFullYear (tza w) (clock w (reads w)))
                             (getMonth (tza w) (clock w (reads w)))
                             (getDate (tza w) (clock w (reads w))))))"
proof -
  have r: "0 \<le> getDay tz now" "getDay tz now \<le> 6"
    using getDay_range[of tz now] by simp_all
  have v: "dayVal tz now = Str (days ! nat (getDay tz now))" for tz now
    using getDay_range[of tz now] by (simp add: dayVal_def array_get_def days_def)
  have c: "getDay tz now = civil_weekday (getFullYear tz now) (getMonth tz now) (getDate tz now)"
    for tz now
    by (simp add: getDay_def getFullYear_def getMonth_def getDate_def civil_weekday_fields)
  have m: "MakeDay (getFullYear tz now) (getMonth tz now) (getDate tz now)
           = Day (LocalTime tz now)"
    by (simp add: getFullYear_def getMonth_def getDate_def MakeDay_fields)
  have d: "targets_present w \<longrightarrow>
        document (fst (updateClock w)) ''day''
        = Some (days ! nat (civil_weekday (getFullYear (tza w) (clock w (reads w)))
                             (getMonth (tza w) (clock w (reads w)))
                             (getDate (tza w) (clock w (reads w)))))"
    by (simp add: updateClock_writes v c[symmetric] textContent_of_Str)
  from v c m r d days_def show ?thesis by blast
qed

theorem dayVal_correct_witness:
  "targets_present example_world
   \<and> civil_weekday 2024 2 7 = 4
   \<and> document (fst (updateClock example_world)) ''day'' = Some ''Thursday''"
proof -
  have f: "getFullYear (tza example_world) (clock example_world (reads example_world)) = 2024"
    "getMonth (tza example_world) (clock example_world (reads example_world)) = 2"
    "getDate (tza example_world) (clock example_world (reads example_world)) = 7"
    by (simp_all add: example_world_def calendar_eval)
  have c: "civil_weekday 2024 2 7 = 4"
    by (simp add: civil_weekday_def)
  note d = dayVal_correct[THEN conjunct2, THEN conjunct2, THEN conjunct2, THEN conjunct2,
      THEN conjunct2, THEN conjunct2, rule_format, OF example_world_targets]
  have "document (fst (updateClock example_world)) ''day'' = Some ''Thursday''"
    using d by (simp add: f c days_def)
  with c example_world_targets show ?thesis by simp
qed

text \<open>
  C6: for every instant the date string is the month name, a space, the day of the
  month, a comma and a space, and the year. The month name is the entry of the
  twelve-name table at the instant's month (from 0 to 11); the day of the month is from
  1 to 31 and is written in decimal with no leading zero; the year is written in full.
  Month, day and year are the calendar date of the instant's local day.
\<close>

theorem dateStr_format:
  "dateStr tz now
   = months ! nat (getMonth tz now) @ '' '' @ digits (nat (getDate tz now)) @ '', ''
     @ NumberToString (getFullYear tz now)
   \<and> 0 \<le> getMonth tz now \<and> getMonth tz now \<le> 11
   \<and> 1 \<le> getDate tz now \<and> getDate tz now \<le> 31
   \<and> hd (digits (nat (getDate tz now))) \<noteq> CHR ''0''
   \<and> MakeDay (getFullYear tz now) (getMonth tz now) (getDate tz now) = Day (LocalTime tz now)
   \<and> months = [''January'', ''February'', ''March'', ''April'', ''May'', ''June'', ''July'',
               ''August'', ''September'', ''October'', ''November'', ''December'']
   \<and> (targets_present w \<longrightarrow>
        document (fst (updateClock w)) ''date''
        = Some (dateStr (tza w) (clock w (reads w))))"
proof -
  have mr: "0 \<le> getMonth tz now" "getMonth tz now \<le> 11"
    using getMonth_range[of tz now] by simp_all
  have dr: "1 \<le> getDate tz now" "getDate tz now \<le> 31"
    by (rule getDate_range)+
  have s: "dateStr tz now
           = months ! nat (getMonth tz now) @ '' '' @ digits (nat (getDate tz now)) @ '', ''
             @ NumberToString (getFullYear tz now)"
    using getMonth_range[of tz now] dr(1)
    by (simp add: dateStr_def array_get_def months_def NumberToString_def)
  have z: "hd (digits (nat (getDate tz now))) \<noteq> CHR ''0''"
    using dr(1) by (intro digits_hd_nonzero) simp
  have m: "MakeDay (getFullYear tz now) (getMonth tz now) (getDate tz now)
           = Day (LocalTime tz now)"
    by (simp add: getFullYear_def getMonth_def getDate_def MakeDay_fields)
  have d: "targets_present w \<longrightarrow>
        document (fst (updateClock w)) ''date'' = Some (dateStr (tza w) (clock w (reads w)))"
    by (simp add: updateClock_writes)
  from s mr dr z m months_def d show ?thesis by blast
qed

theorem dateStr_format_witness:
  "targets_present example_world
   \<and> dateStr (tza example_world) (clock example_world (reads example_world))
     = ''March 7, 2024''
   \<and> document (fst (updateClock example_world)) ''date'' = Some ''March 7, 2024''"
proof -
  have f: "getFullYear (tza example_world) (clock example_world (reads example_world)) = 2024"
    "getMonth (tza example_world) (clock example_world (reads example_world)) = 2"
    "getDate (tza example_world) (clock example_world (reads example_world)) = 7"
    by (simp_all add: example_world_def calendar_eval)
  have s: "dateStr (tza example_world) (clock example_world (reads example_world))
           = ''March 7, 2024''"
    using dateStr_format[THEN conjunct1,
        of "tza example_world" "clock example_world (reads example_world)"]
    by (simp add: f months_def NumberToString_def digits.simps)
  note d = dateStr_format[THEN conjunct2, THEN conjunct2, THEN conjunct2, THEN conjunct2,
      THEN conjunct2, THEN conjunct2, THEN conjunct2, THEN conjunct2, rule_format,
      OF example_world_targets]
  from d s example_world_targets show ?thesis by simp
qed

text \<open>
  C7: a call of \<^verbatim>\<open>updateClock\<close> reads the clock exactly once, and with the three
  elements in the document it throws nothing and leaves in them the three strings of
  that one reading; what the clock would give at any other read does not matter.
\<close>

theorem updateClock_single_instant:
  "reads (fst (updateClock w)) = Suc (reads w)
   \<and> (targets_present w \<longrightarrow>
        snd (updateClock w) = None
        \<and> document (fst (updateClock w)) ''day''
          = Some (textContent_of (dayVal (tza w) (clock w (reads w))))
        \<and> document (fst (updateClock w)) ''date'' = Some (dateStr (tza w) (clock w (reads w)))
        \<and> document (fst (updateClock w)) ''time'' = Some (timeStr (tza w) (clock w (reads w)))
        \<and> (\<forall>c. c (reads w) = clock w (reads w) \<longrightarrow>
               document (fst (updateClock (w\<lparr>clock := c\<rparr>))) = document (fst (updateClock w))))"
proof -
  have "targets_present (w\<lparr>clock := c\<rparr>) = targets_present w" for c
    by (simp add: targets_present_def)
  then show ?thesis
    by (simp add: updateClock_reads updateClock_writes)
qed

theorem updateClock_single_instant_witness:
  "targets_present example_world
   \<and> reads (fst (updateClock example_world)) = 1
   \<and> snd (updateClock example_world) = None
   \<and> document (fst (updateClock example_world)) ''time'' = Some ''- 12:05 AM -''
   \<and> document (fst (updateClock (example_world\<lparr>clock := \<lambda>k. 1709769900000 + 7 * int k\<rparr>)))
     = document (fst (updateClock example_world))"
proof -
  note t = updateClock_single_instant[THEN conjunct2, rule_format, OF example_world_targets]
  have l: "LocalTime (tza example_world) (clock example_world (reads example_world))
           = LocalTime (\<lambda>_. 0) 1709769900000"
    by (simp add: example_world_def LocalTime_def)
  have r: "reads (fst (updateClock example_world)) = 1"
    using updateClock_single_instant[THEN conjunct1, of example_world]
    by (simp add: example_world_def)
  have c: "(\<lambda>k. 1709769900000 + 7 * int k) (reads example_world)
           = clock example_world (reads example_world)"
    by (simp add: example_world_def)
  have "document (fst (updateClock example_world)) ''time'' = Some ''- 12:05 AM -''"
    using t[THEN conjunct2, THEN conjunct2, THEN conjunct2, THEN conjunct1]
    by (simp only: strings_of_local_time(3)[OF l] strings_2024_03_07)
  moreover have "document (fst (updateClock
                     (example_world\<lparr>clock := \<lambda>k. 1709769900000 + 7 * int k\<rparr>)))
                 = document (fst (updateClock example_world))"
    using t[THEN conjunct2, THEN conjunct2, THEN conjunct2, THEN conjunct2, THEN spec,
        of "\<lambda>k. 1709769900000 + 7 * int k"] c
    by blast
  moreover note t[THEN conjunct1]
  ultimately show ?thesis using r example_world_targets by simp
qed

text \<open>
  C8: two calls of \<^verbatim>\<open>updateClock\<close> that capture the same instant, in the same time
  zone and each with the three elements in the document, leave the same three strings.
\<close>

theorem updateClock_deterministic:
  assumes "targets_present w" "targets_present w'" "tza w = tza w'"
    and "clock w (reads w) = clock w' (reads w')"
  shows "document (fst (updateClock w)) ''day'' = document (fst (updateClock w')) ''day''
         \<and> document (fst (updateClock w)) ''date'' = document (fst (updateClock w')) ''date''
         \<and> document (fst (updateClock w)) ''time'' = document (fst (updateClock w')) ''time''"
  using assms by (simp add: updateClock_writes)

text \<open>Calling twice in a row within one millisecond changes nothing the second time.\<close>

lemma updateClock_twice:
  assumes "targets_present w" "clock w (Suc (reads w)) = clock w (reads w)"
  shows "document (fst (updateClock (fst (updateClock w)))) = document (fst (updateClock w))"
proof -
  let ?w = "fst (updateClock w)"
  have "reads ?w = Suc (reads w)" "clock ?w = clock w" "tza ?w = tza w" "targets_present ?w"
    using updateClock_keeps[OF assms(1)] updateClock_reads by simp_all
  then show ?thesis
    using assms by (simp add: updateClock_writes[of ?w]) (simp add: updateClock_writes)
qed

theorem updateClock_deterministic_witness:
  "targets_present (example_world\<lparr>clock := \<lambda>_. 1709769900000\<rparr>)
   \<and> targets_present (fst (updateClock (example_world\<lparr>clock := \<lambda>_. 1709769900000\<rparr>)))
   \<and> document (fst (updateClock (fst (updateClock
         (example_world\<lparr>clock := \<lambda>_. 1709769900000\<rparr>))))) ''time''
     = document (fst (updateClock (example_world\<lparr>clock := \<lambda>_. 1709769900000\<rparr>))) ''time''"
proof -
  let ?w = "example_world\<lparr>clock := \<lambda>_. 1709769900000\<rparr>"
  have t: "targets_present ?w"
    using example_world_targets by (simp add: targets_present_def)
  have t': "targets_present (fst (updateClock ?w))"
    by (rule updateClock_keeps(1)[OF t])
  have z: "tza (fst (updateClock ?w)) = tza ?w"
    by (rule updateClock_keeps(3)[OF t])
  have c: "clock (fst (updateClock ?w)) (reads (fst (updateClock ?w))) = clock ?w (reads ?w)"
    by (simp add: updateClock_keeps(2)[OF t])
  from updateClock_deterministic[OF t' t z c] t t' show ?thesis by simp
qed

text \<open>
  C10: for every instant the day of the week is from 0 to 6 and the month from 0 to 11,
  so both table reads are in range: each gives a name of its table, never
  \<^verbatim>\<open>undefined\<close>.
\<close>

theorem table_reads_in_range:
  "0 \<le> getDay tz now \<and> getDay tz now \<le> 6 \<and> length days = 7
   \<and> 0 \<le> getMonth tz now \<and> getMonth tz now \<le> 11 \<and> length months = 12
   \<and> array_get days (getDay tz now) = Str (days ! nat (getDay tz now))
   \<and> array_get months (getMonth tz now) = Str (months ! nat (getMonth tz now))
   \<and> dayVal tz now \<noteq> Undefined
   \<and> array_get months (getMonth tz now) \<noteq> Undefined"
  using getDay_range[of tz now] getMonth_range[of tz now]
  by (simp add: dayVal_def array_get_def days_def months_def)

section \<open>The schedule\<close>

text \<open>
  C9: with the three elements in the document, the script renders once as it starts and
  leaves exactly one timer, the one-shot timer with the alignment delay \<open>d\<close>. When that
  fires there is one more render and exactly one timer again, repeating every 60000 ms.
  From then on every turn of the event loop is one tick of that timer and one render:
  after \<open>n\<close> ticks the renders made are those at 0, at \<open>d\<close>, and at \<open>d + 60000 k\<close> for
  \<open>k\<close> from 1 to \<open>n\<close>, in this order and no others, and the timer is pending for the
  next tick. The loop never runs out of timers.
\<close>

theorem schedule_sequence:
  assumes "targets_present w"
    and "d = msUntilNextMinute (tza w) (clock w (Suc (reads w)))"
  shows "snd (boot w) = None \<and> elapsed (fst (boot w)) = 0 \<and> calls (fst (boot w)) = [0]
         \<and> timers (fst (boot w)) = [\<lparr>handler = Arrow, due = d, period = None\<rparr>]
         \<and> 1 \<le> d \<and> d \<le> 60000
         \<and> (\<forall>n. \<exists>r. steps (Suc n) (fst (boot w)) = Some r
                 \<and> elapsed r = d + 60000 * int n
                 \<and> calls r = 0 # map (\<lambda>k. d + 60000 * int k) [0..<Suc n]
                 \<and> timers r = [\<lparr>handler = UpdateClock, due = d + 60000 * (int n + 1),
                                  period = Some 60000\<rparr>]
                 \<and> uncaught r = [])"
proof -
  have b: "snd (boot w) = None" "elapsed (fst (boot w)) = 0" "calls (fst (boot w)) = [0]"
    "timers (fst (boot w)) = [\<lparr>handler = Arrow, due = d, period = None\<rparr>]"
    by (simp_all add: boot_state[OF assms(1)] assms(2))
  have r: "1 \<le> d" "d \<le> 60000"
    unfolding assms(2) by (rule msUntilNextMinute_range)+
  have s: "\<exists>r. steps (Suc n) (fst (boot w)) = Some r
                 \<and> elapsed r = d + 60000 * int n
                 \<and> calls r = 0 # map (\<lambda>k. d + 60000 * int k) [0..<Suc n]
                 \<and> timers r = [\<lparr>handler = UpdateClock, due = d + 60000 * (int n + 1),
                                  period = Some 60000\<rparr>]
                 \<and> uncaught r = []" for n
    using steps_ticking[OF assms(1), of n] unfolding assms(2) ticking_def by blast
  from b r s show ?thesis by blast
qed

theorem schedule_sequence_witness:
  "targets_present example_world
   \<and> calls (fst (boot example_world)) = [0]
   \<and> timers (fst (boot example_world)) = [\<lparr>handler = Arrow, due = 500, period = None\<rparr>]
   \<and> (\<exists>r. steps 3 (fst (boot example_world)) = Some r
          \<and> calls r = [0, 500, 60500, 120500]
          \<and> timers r = [\<lparr>handler = UpdateClock, due = 180500, period = Some 60000\<rparr>])"
proof -
  have d: "500 = msUntilNextMinute (tza example_world)
                   (clock example_world (Suc (reads example_world)))"
    by (simp add: example_world_def msUntilNextMinute_def getSeconds_def getMilliseconds_def
        SecFromTime_def msFromTime_def LocalTime_def msPerSecond_def)
  note s = schedule_sequence[OF example_world_targets d]
  have u: "[0..<3] = [0, 1, Suc 1]" by (simp add: upt_rec)
  have "\<exists>r. steps 3 (fst (boot example_world)) = Some r
          \<and> calls r = [0, 500, 60500, 120500]
          \<and> timers r = [\<lparr>handler = UpdateClock, due = 180500, period = Some 60000\<rparr>]"
    using s[THEN conjunct2, THEN conjunct2, THEN conjunct2, THEN conjunct2, THEN conjunct2,
        THEN conjunct2, THEN spec, of 2]
    by (auto simp add: u)
  with s example_world_targets show ?thesis by blast
qed

end
